theory Spec2Isabelle
  imports Complex_Main "HOL-Library.Word"
begin

unbundle bit_operations_syntax

section \<open>The host stack as seen from the application\<close>

text \<open>
  Both lessons are Zephyr applications: every handler is called by the Bluetooth host
  stack, and everything a handler does beyond assigning the globals \<open>my_conn\<close> and
  \<open>exchange_params.func\<close> is a call into the stack, the LED driver or the logger.
  A pointer to a \<open>struct bt_conn\<close> is an address or \<open>NULL\<close> (\<open>None\<close>).
  The C type \<open>int\<close> is 32 bits wide on the targets of these lessons.
\<close>

type_synonym bt_conn = "nat option"

record bt_conn_info =
  le_interval :: "16 word"
  le_latency :: "16 word"
  le_timeout :: "16 word"

record bt_conn_le_phy_param =
  options :: "16 word"
  pref_tx_phy :: "8 word"
  pref_rx_phy :: "8 word"

record bt_conn_le_data_len_param =
  tx_max_len :: "16 word"
  tx_max_time :: "16 word"

record bt_conn_le_phy_info =
  tx_phy :: "8 word"
  rx_phy :: "8 word"

record bt_conn_le_data_len_info =
  info_tx_max_len :: "16 word"
  info_tx_max_time :: "16 word"
  info_rx_max_len :: "16 word"
  info_rx_max_time :: "16 word"

text \<open>
  The headers of Zephyr and of the nRF Connect SDK are not part of the repository. The
  macros the handlers use and the values the stack returns are fields of one record:
  a theorem about a handler holds for every value of them. A stack function is a
  function of its arguments; each handler calls each stack function at most once, so a
  fresh record for every handler invocation covers a stack whose answers change over time.
\<close>

record zephyr =
  DK_BTN1_MSK :: "32 word"
  DK_LED1 :: "8 word"
  DK_LED2 :: "8 word"
  BT_CONN_LE_PHY_OPT_NONE :: "16 word"
  BT_GAP_LE_PHY_NONE :: "8 word"
  BT_GAP_LE_PHY_1M :: "8 word"
  BT_GAP_LE_PHY_2M :: "8 word"
  BT_CONN_LE_TX_POWER_PHY_CODED_S8 :: "8 word"
  BT_CONN_LE_TX_POWER_PHY_CODED_S2 :: "8 word"
  BT_GAP_DATA_LEN_MAX :: "16 word"
  BT_GAP_DATA_TIME_MAX :: "16 word"
  bt_conn_ref :: "bt_conn \<Rightarrow> bt_conn"
  bt_conn_get_info :: "bt_conn \<Rightarrow> 32 word \<times> bt_conn_info"
  bt_conn_le_phy_update :: "bt_conn \<Rightarrow> bt_conn_le_phy_param \<Rightarrow> 32 word"
  bt_conn_le_data_len_update :: "bt_conn \<Rightarrow> bt_conn_le_data_len_param \<Rightarrow> 32 word"
  bt_gatt_exchange_mtu :: "bt_conn \<Rightarrow> 32 word"
  bt_gatt_get_mtu :: "bt_conn \<Rightarrow> 16 word"
  bt_lbs_send_button_state :: "bool \<Rightarrow> 32 word"

text \<open>
  What a handler does to the outside world, in the order it does it: the log lines
  (format string and arguments) and the calls it makes.
\<close>

datatype log_arg = Arg_int int | Arg_str string | Arg_double rat

datatype effect =
    LOG_ERR string "log_arg list"
  | LOG_INF string "log_arg list"
  | Call_bt_conn_ref bt_conn
  | Call_bt_conn_unref bt_conn
  | Call_bt_conn_get_info bt_conn
  | Call_dk_set_led "8 word" "32 word"
  | Call_bt_conn_le_phy_update bt_conn bt_conn_le_phy_param
  | Call_bt_conn_le_data_len_update bt_conn bt_conn_le_data_len_param
  | Call_bt_gatt_exchange_mtu bt_conn
  | Call_bt_gatt_get_mtu bt_conn
  | Call_bt_lbs_send_button_state bool

datatype callback = Exchange_func

text \<open>
  The globals. Exercise 1 has \<open>my_conn\<close> only; exercise 2 adds the static
  \<open>exchange_params\<close>, of which the application writes the field \<open>func\<close>.
  \<open>trace\<close> is the history of effects, oldest first.
\<close>

record app =
  my_conn :: bt_conn
  trace :: "effect list"

record app2 = app +
  exchange_params_func :: "callback option"

definition emit :: "effect \<Rightarrow> 'a app_scheme \<Rightarrow> 'a app_scheme" where
  "emit e s = s\<lparr>trace := trace s @ [e]\<rparr>"

text \<open>The state at boot: \<open>my_conn = NULL\<close>, \<open>exchange_params\<close> zeroed.\<close>

definition boot1 :: app where
  "boot1 = \<lparr>my_conn = None, trace = []\<rparr>"

definition boot2 :: app2 where
  "boot2 = \<lparr>my_conn = None, trace = [], exchange_params_func = None\<rparr>"

section \<open>Lesson 3, exercise 1\<close>

definition USER_BUTTON :: "zephyr \<Rightarrow> 32 word" where
  "USER_BUTTON z = DK_BTN1_MSK z"

definition RUN_STATUS_LED :: "zephyr \<Rightarrow> 8 word" where
  "RUN_STATUS_LED z = DK_LED1 z"

definition CON_STATUS_LED :: "zephyr \<Rightarrow> 8 word" where
  "CON_STATUS_LED z = DK_LED2 z"

definition connected_cb :: "zephyr \<Rightarrow> bt_conn \<Rightarrow> 8 word \<Rightarrow> app \<Rightarrow> app" where
  "connected_cb z conn err s =
     (if err \<noteq> 0 then emit (LOG_ERR ''Connection failed (err %u)'' [Arg_int (uint err)]) s
      else
        let s1 = emit (LOG_INF ''Connected'' []) s;
            s2 = (emit (Call_bt_conn_ref conn) s1)\<lparr>my_conn := bt_conn_ref z conn\<rparr>
        in emit (Call_dk_set_led (CON_STATUS_LED z) 1) s2)"

definition disconnected_cb :: "zephyr \<Rightarrow> bt_conn \<Rightarrow> 8 word \<Rightarrow> app \<Rightarrow> app" where
  "disconnected_cb z conn reason s =
     (let s1 = emit (LOG_INF ''Disconnected (reason %u)'' [Arg_int (uint reason)]) s;
          s2 = emit (Call_bt_conn_unref (my_conn s1)) s1
      in emit (Call_dk_set_led (CON_STATUS_LED z) 0) s2)"

definition button_handler :: "zephyr \<Rightarrow> 32 word \<Rightarrow> 32 word \<Rightarrow> app \<Rightarrow> app" where
  "button_handler z button_state has_changed s =
     (if has_changed AND USER_BUTTON z \<noteq> 0 then
        let s1 = emit (LOG_INF ''Button state changed to 0x%08x'' [Arg_int (uint button_state)]) s;
            b = (button_state \<noteq> 0);
            err = bt_lbs_send_button_state z b;
            s2 = emit (Call_bt_lbs_send_button_state b) s1
        in if err \<noteq> 0
           then emit (LOG_ERR ''Failed to send button state, error code: %d'' [Arg_int (sint err)]) s2
           else s2
      else s)"

section \<open>Lesson 3, exercise 2\<close>

definition CONNECTION_STATUS_LED :: "zephyr \<Rightarrow> 8 word" where
  "CONNECTION_STATUS_LED z = DK_LED2 z"

definition phy_param :: "zephyr \<Rightarrow> bt_conn_le_phy_param" where
  "phy_param z = \<lparr>options = BT_CONN_LE_PHY_OPT_NONE z,
                   pref_tx_phy = BT_GAP_LE_PHY_2M z,
                   pref_rx_phy = BT_GAP_LE_PHY_2M z\<rparr>"

definition update_phy :: "zephyr \<Rightarrow> bt_conn \<Rightarrow> app2 \<Rightarrow> app2" where
  "update_phy z conn s =
     (let err = bt_conn_le_phy_update z conn (phy_param z);
          s1 = emit (Call_bt_conn_le_phy_update conn (phy_param z)) s
      in if err \<noteq> 0 then emit (LOG_ERR ''PHY update failed (err %d)'' [Arg_int (sint err)]) s1
         else s1)"

definition data_len_param :: "zephyr \<Rightarrow> bt_conn_le_data_len_param" where
  "data_len_param z = \<lparr>tx_max_len = BT_GAP_DATA_LEN_MAX z,
                        tx_max_time = BT_GAP_DATA_TIME_MAX z\<rparr>"

definition update_data_length :: "zephyr \<Rightarrow> bt_conn \<Rightarrow> app2 \<Rightarrow> app2" where
  "update_data_length z conn s =
     (let err = bt_conn_le_data_len_update z conn (data_len_param z);
          s1 = emit (Call_bt_conn_le_data_len_update conn (data_len_param z)) s
      in if err \<noteq> 0
         then emit (LOG_ERR ''Data length update failed (err %d)'' [Arg_int (sint err)]) s1
         else emit (LOG_INF ''Data length updated: TX %u, time %u''
                      [Arg_int (uint (tx_max_len (data_len_param z))),
                       Arg_int (uint (tx_max_time (data_len_param z)))]) s1)"

definition update_mtu :: "zephyr \<Rightarrow> bt_conn \<Rightarrow> app2 \<Rightarrow> app2" where
  "update_mtu z conn s =
     (let s1 = s\<lparr>exchange_params_func := Some Exchange_func\<rparr>;
          err = bt_gatt_exchange_mtu z conn;
          s2 = emit (Call_bt_gatt_exchange_mtu conn) s1
      in if err \<noteq> 0 then emit (LOG_ERR ''MTU exchange failed (err %d)'' [Arg_int (sint err)]) s2
         else emit (LOG_INF ''MTU exchange pending'' []) s2)"

text \<open>
  In \<open>on_connected\<close> the parameter \<open>err\<close> is a \<open>uint8_t\<close>; the \<open>int\<close> that
  \<open>bt_conn_get_info\<close> returns is assigned to it, which keeps its low eight bits. The
  local \<open>timeout\<close> is a \<open>uint16_t\<close>, so the product wraps at sixteen bits. The
  \<open>double\<close> \<open>interval\<close> is a sixteen-bit value times five quarters, which a
  \<open>double\<close> holds exactly.
\<close>

definition on_connected :: "zephyr \<Rightarrow> bt_conn \<Rightarrow> 8 word \<Rightarrow> app2 \<Rightarrow> app2" where
  "on_connected z conn err s =
     (if err \<noteq> 0 then emit (LOG_ERR ''Connection error %d'' [Arg_int (uint err)]) s
      else
        let s1 = emit (LOG_INF ''Connected'' []) s;
            s2 = (emit (Call_bt_conn_ref conn) s1)\<lparr>my_conn := bt_conn_ref z conn\<rparr>;
            s3 = emit (Call_dk_set_led (CONNECTION_STATUS_LED z) 1) s2;
            (ret, info) = bt_conn_get_info z (my_conn s3);
            s4 = emit (Call_bt_conn_get_info (my_conn s3)) s3;
            err2 = (ucast ret :: 8 word)
        in if err2 \<noteq> 0
           then emit (LOG_ERR ''Cannot get connection info, err %d'' [Arg_int (uint err2)]) s4
           else
             let interval = (of_int (uint (le_interval info)) * (5 / 4) :: rat);
                 timeout = (le_timeout info * 10 :: 16 word);
                 s5 = emit (LOG_INF
                   ''Connection parameters: interval %.2f ms, timeout %d ms, latency %d intervals''
                   [Arg_double interval, Arg_int (uint timeout),
                    Arg_int (uint (le_latency info))]) s4;
                 s6 = update_phy z (my_conn s5) s5;
                 s7 = update_data_length z (my_conn s6) s6
             in update_mtu z (my_conn s7) s7)"

definition on_disconnected :: "zephyr \<Rightarrow> bt_conn \<Rightarrow> 8 word \<Rightarrow> app2 \<Rightarrow> app2" where
  "on_disconnected z conn reason s =
     (let s1 = emit (LOG_INF ''Disconnected. Reason %d'' [Arg_int (uint reason)]) s;
          s2 = emit (Call_dk_set_led (CONNECTION_STATUS_LED z) 0) s1
      in emit (Call_bt_conn_unref (my_conn s2)) s2)"

definition on_le_param_updated ::
  "zephyr \<Rightarrow> bt_conn \<Rightarrow> 16 word \<Rightarrow> 16 word \<Rightarrow> 16 word \<Rightarrow> app2 \<Rightarrow> app2" where
  "on_le_param_updated z conn interval latency timeout s =
     emit (LOG_INF
       ''Connection parameters updated: interval %.2f ms, timeout %d ms, latency %d intervals''
       [Arg_double (of_int (uint interval) * (5 / 4)), Arg_int (uint timeout * 10),
        Arg_int (uint latency)]) s"

definition phy_names :: "zephyr \<Rightarrow> (8 word \<times> string) list" where
  "phy_names z =
     [(BT_GAP_LE_PHY_NONE z, ''No preferred PHY''),
      (BT_GAP_LE_PHY_1M z, ''1M PHY''),
      (BT_GAP_LE_PHY_2M z, ''2M PHY''),
      (BT_CONN_LE_TX_POWER_PHY_CODED_S8 z, ''Coded PHY, S=8''),
      (BT_CONN_LE_TX_POWER_PHY_CODED_S2 z, ''Coded PHY, S=2'')]"

text \<open>The \<open>for\<close> loop of \<open>on_le_phy_updated\<close> over the rows of the table.\<close>

fun phy_loop :: "(8 word \<times> string) list \<Rightarrow> bt_conn_le_phy_info \<Rightarrow> app2 \<Rightarrow> app2" where
  "phy_loop [] info s = s"
| "phy_loop ((phy_option, name) # rest) info s =
     (let s1 = (if phy_option = tx_phy info
                then emit (LOG_INF ''TX PHY updated: %s'' [Arg_str name]) s else s);
          s2 = (if phy_option = rx_phy info
                then emit (LOG_INF ''RX PHY updated: %s'' [Arg_str name]) s1 else s1)
      in phy_loop rest info s2)"

definition on_le_phy_updated :: "zephyr \<Rightarrow> bt_conn \<Rightarrow> bt_conn_le_phy_info \<Rightarrow> app2 \<Rightarrow> app2" where
  "on_le_phy_updated z conn info s = phy_loop (phy_names z) info s"

definition on_le_data_length_updated ::
  "zephyr \<Rightarrow> bt_conn \<Rightarrow> bt_conn_le_data_len_info \<Rightarrow> app2 \<Rightarrow> app2" where
  "on_le_data_length_updated z conn info s =
     emit (LOG_INF ''Data length updated: TX: %u bytes, time %u; RX: %u bytes, time %u''
       [Arg_int (uint (info_tx_max_len info)), Arg_int (uint (info_tx_max_time info)),
        Arg_int (uint (info_rx_max_len info)), Arg_int (uint (info_rx_max_time info))]) s"

text \<open>
  \<open>bt_gatt_get_mtu\<close> returns a \<open>uint16_t\<close>; in \<open>bt_gatt_get_mtu(conn) - 3\<close> it is
  promoted to \<open>int\<close>, so the difference does not wrap.
\<close>

definition exchange_func :: "zephyr \<Rightarrow> bt_conn \<Rightarrow> 8 word \<Rightarrow> app2 \<Rightarrow> app2" where
  "exchange_func z conn err s =
     (let s1 = emit (LOG_INF ''MTU exchange %s''
                  [Arg_str (if err = 0 then ''successful'' else ''failed'')]) s
      in if err = 0 then
           let mtu = bt_gatt_get_mtu z conn;
               s2 = emit (Call_bt_gatt_get_mtu conn) s1
           in emit (LOG_INF ''Negotiated MTU is %d bytes'' [Arg_int (uint mtu - 3)]) s2
         else s1)"

definition button_changed :: "zephyr \<Rightarrow> 32 word \<Rightarrow> 32 word \<Rightarrow> app2 \<Rightarrow> app2" where
  "button_changed z button_state has_changed s =
     (if has_changed AND USER_BUTTON z \<noteq> 0 then
        let s1 = emit (LOG_INF ''Button changed'' []) s;
            b = (button_state \<noteq> 0);
            err = bt_lbs_send_button_state z b;
            s2 = emit (Call_bt_lbs_send_button_state b) s1
        in if err \<noteq> 0
           then emit (LOG_ERR ''Couldn't send notification. err: %d'' [Arg_int (sint err)]) s2
           else s2
      else s)"

subsection \<open>The callback table\<close>

text \<open>
  \<open>connection_callbacks\<close> registers five handlers, \<open>update_mtu\<close> registers
  \<open>exchange_func\<close> in \<open>exchange_params\<close>, and \<open>init_button\<close> registers
  \<open>button_changed\<close>. The stack calls the handlers one at a time. The result of an MTU
  exchange goes to the function stored in \<open>exchange_params.func\<close>; before \<open>update_mtu\<close>
  has stored one there is no request whose result could arrive.
\<close>

datatype event =
    Connected bt_conn "8 word"
  | Disconnected bt_conn "8 word"
  | Le_param_updated bt_conn "16 word" "16 word" "16 word"
  | Le_phy_updated bt_conn bt_conn_le_phy_info
  | Le_data_len_updated bt_conn bt_conn_le_data_len_info
  | Mtu_exchanged bt_conn "8 word"
  | Button "32 word" "32 word"

fun dispatch :: "zephyr \<Rightarrow> event \<Rightarrow> app2 \<Rightarrow> app2" where
  "dispatch z (Connected conn err) s = on_connected z conn err s"
| "dispatch z (Disconnected conn reason) s = on_disconnected z conn reason s"
| "dispatch z (Le_param_updated conn interval latency timeout) s =
     on_le_param_updated z conn interval latency timeout s"
| "dispatch z (Le_phy_updated conn info) s = on_le_phy_updated z conn info s"
| "dispatch z (Le_data_len_updated conn info) s = on_le_data_length_updated z conn info s"
| "dispatch z (Mtu_exchanged conn err) s =
     (case exchange_params_func s of
        Some Exchange_func \<Rightarrow> exchange_func z conn err s
      | None \<Rightarrow> s)"
| "dispatch z (Button button_state has_changed) s = button_changed z button_state has_changed s"

fun run :: "(zephyr \<times> event) list \<Rightarrow> app2 \<Rightarrow> app2" where
  "run [] s = s"
| "run ((z, ev) # evs) s = run evs (dispatch z ev s)"

subsection \<open>Reading a trace\<close>

fun is_request :: "effect \<Rightarrow> bool" where
  "is_request (Call_bt_conn_le_phy_update c p) = True"
| "is_request (Call_bt_conn_le_data_len_update c p) = True"
| "is_request (Call_bt_gatt_exchange_mtu c) = True"
| "is_request e = False"

fun is_log :: "effect \<Rightarrow> bool" where
  "is_log (LOG_ERR f as) = True"
| "is_log (LOG_INF f as) = True"
| "is_log e = False"

fun is_completion :: "event \<Rightarrow> bool" where
  "is_completion (Le_phy_updated c i) = True"
| "is_completion (Le_data_len_updated c i) = True"
| "is_completion (Mtu_exchanged c e) = True"
| "is_completion ev = False"

fun is_refcount :: "effect \<Rightarrow> bool" where
  "is_refcount (Call_bt_conn_ref c) = True"
| "is_refcount (Call_bt_conn_unref c) = True"
| "is_refcount e = False"

text \<open>What a handler added to the trace of the state it started from.\<close>

definition added :: "'a app_scheme \<Rightarrow> 'a app_scheme \<Rightarrow> effect list" where
  "added s s' = drop (length (trace s)) (trace s')"

subsection \<open>A sample board\<close>

text \<open>
  The values of the macros in the nRF Connect SDK, and a stack on which every call
  succeeds, reports 24 units of interval and 42 of timeout, and has negotiated an MTU of
  247. Used for evaluating the handlers on concrete inputs only.
\<close>

definition sample_info :: bt_conn_info where
  "sample_info = \<lparr>le_interval = 24, le_latency = 0, le_timeout = 42\<rparr>"

definition board :: zephyr where
  "board = \<lparr>DK_BTN1_MSK = 1, DK_LED1 = 0, DK_LED2 = 1,
     BT_CONN_LE_PHY_OPT_NONE = 0,
     BT_GAP_LE_PHY_NONE = 0, BT_GAP_LE_PHY_1M = 1, BT_GAP_LE_PHY_2M = 2,
     BT_CONN_LE_TX_POWER_PHY_CODED_S8 = 3, BT_CONN_LE_TX_POWER_PHY_CODED_S2 = 4,
     BT_GAP_DATA_LEN_MAX = 251, BT_GAP_DATA_TIME_MAX = 17040,
     bt_conn_ref = (\<lambda>c. c),
     bt_conn_get_info = (\<lambda>c. (0, sample_info)),
     bt_conn_le_phy_update = (\<lambda>c p. 0),
     bt_conn_le_data_len_update = (\<lambda>c p. 0),
     bt_gatt_exchange_mtu = (\<lambda>c. 0),
     bt_gatt_get_mtu = (\<lambda>c. 247),
     bt_lbs_send_button_state = (\<lambda>b. 0)\<rparr>"

text \<open>
  Two variations of the sample board: one on which \<open>bt_conn_get_info\<close> fails with
  \<open>-EINVAL\<close>, one on which the PHY and the data length requests are refused.
\<close>

definition board_info_fails :: zephyr where
  "board_info_fails = board\<lparr>bt_conn_get_info := (\<lambda>c. (- 22, sample_info))\<rparr>"

definition board_requests_refused :: zephyr where
  "board_requests_refused =
     board\<lparr>bt_conn_le_phy_update := (\<lambda>c p. - 22),
           bt_conn_le_data_len_update := (\<lambda>c p. - 22)\<rparr>"

section \<open>Facts about the building blocks\<close>

lemma emit_simps:
  "trace (emit e s) = trace s @ [e]"
  "my_conn (emit e s) = my_conn s"
  by (simp_all add: emit_def)

lemma emit_func: "exchange_params_func (emit e s) = exchange_params_func s"
  by (simp add: emit_def)

lemma update_phy_trace:
  "trace (update_phy z c s) = trace s @
     Call_bt_conn_le_phy_update c (phy_param z) #
     (if bt_conn_le_phy_update z c (phy_param z) \<noteq> 0
      then [LOG_ERR ''PHY update failed (err %d)''
              [Arg_int (sint (bt_conn_le_phy_update z c (phy_param z)))]]
      else [])"
  by (simp add: update_phy_def Let_def emit_simps)

lemma update_phy_globals:
  "my_conn (update_phy z c s) = my_conn s"
  "exchange_params_func (update_phy z c s) = exchange_params_func s"
  by (simp_all add: update_phy_def Let_def emit_simps emit_func)

lemma update_data_length_trace:
  "trace (update_data_length z c s) = trace s @
     [Call_bt_conn_le_data_len_update c (data_len_param z),
      if bt_conn_le_data_len_update z c (data_len_param z) \<noteq> 0
      then LOG_ERR ''Data length update failed (err %d)''
             [Arg_int (sint (bt_conn_le_data_len_update z c (data_len_param z)))]
      else LOG_INF ''Data length updated: TX %u, time %u''
             [Arg_int (uint (BT_GAP_DATA_LEN_MAX z)), Arg_int (uint (BT_GAP_DATA_TIME_MAX z))]]"
  by (simp add: update_data_length_def Let_def emit_simps data_len_param_def)

lemma update_data_length_globals:
  "my_conn (update_data_length z c s) = my_conn s"
  "exchange_params_func (update_data_length z c s) = exchange_params_func s"
  by (simp_all add: update_data_length_def Let_def emit_simps emit_func)

lemma update_mtu_trace:
  "trace (update_mtu z c s) = trace s @
     [Call_bt_gatt_exchange_mtu c,
      if bt_gatt_exchange_mtu z c \<noteq> 0
      then LOG_ERR ''MTU exchange failed (err %d)'' [Arg_int (sint (bt_gatt_exchange_mtu z c))]
      else LOG_INF ''MTU exchange pending'' []]"
  by (simp add: update_mtu_def Let_def emit_simps)

lemma update_mtu_globals:
  "my_conn (update_mtu z c s) = my_conn s"
  "exchange_params_func (update_mtu z c s) = Some Exchange_func"
  by (simp_all add: update_mtu_def Let_def emit_simps emit_func)

lemmas update_facts =
  update_phy_trace update_phy_globals update_data_length_trace update_data_length_globals
  update_mtu_trace update_mtu_globals

text \<open>The trace of \<open>on_connected\<close> on its two paths past the first test of \<open>err\<close>.\<close>

lemma on_connected_info_failed:
  assumes "ucast (fst (bt_conn_get_info z (bt_conn_ref z conn))) \<noteq> (0 :: 8 word)"
  shows "added s (on_connected z conn 0 s) =
     [LOG_INF ''Connected'' [], Call_bt_conn_ref conn,
      Call_dk_set_led (CONNECTION_STATUS_LED z) 1,
      Call_bt_conn_get_info (bt_conn_ref z conn),
      LOG_ERR ''Cannot get connection info, err %d''
        [Arg_int (uint (ucast (fst (bt_conn_get_info z (bt_conn_ref z conn))) :: 8 word))]]"
  using assms
  by (simp add: on_connected_def added_def Let_def emit_simps case_prod_beta)

lemma on_connected_info_ok:
  assumes "ucast (fst (bt_conn_get_info z (bt_conn_ref z conn))) = (0 :: 8 word)"
  shows "drop 5 (added s (on_connected z conn 0 s)) =
     Call_bt_conn_le_phy_update (bt_conn_ref z conn) (phy_param z) #
     (if bt_conn_le_phy_update z (bt_conn_ref z conn) (phy_param z) \<noteq> 0
      then [LOG_ERR ''PHY update failed (err %d)''
          [Arg_int (sint (bt_conn_le_phy_update z (bt_conn_ref z conn) (phy_param z)))]]
      else []) @
     [Call_bt_conn_le_data_len_update (bt_conn_ref z conn) (data_len_param z),
      if bt_conn_le_data_len_update z (bt_conn_ref z conn) (data_len_param z) \<noteq> 0
      then LOG_ERR ''Data length update failed (err %d)''
         [Arg_int (sint (bt_conn_le_data_len_update z (bt_conn_ref z conn) (data_len_param z)))]
      else LOG_INF ''Data length updated: TX %u, time %u''
         [Arg_int (uint (BT_GAP_DATA_LEN_MAX z)), Arg_int (uint (BT_GAP_DATA_TIME_MAX z))],
      Call_bt_gatt_exchange_mtu (bt_conn_ref z conn),
      if bt_gatt_exchange_mtu z (bt_conn_ref z conn) \<noteq> 0
      then LOG_ERR ''MTU exchange failed (err %d)''
         [Arg_int (sint (bt_gatt_exchange_mtu z (bt_conn_ref z conn)))]
      else LOG_INF ''MTU exchange pending'' []]"
  using assms
  by (simp add: on_connected_def added_def Let_def emit_simps update_facts case_prod_beta)

lemma on_connected_first_five:
  "take 4 (added s (on_connected z conn 0 s)) =
     [LOG_INF ''Connected'' [], Call_bt_conn_ref conn,
      Call_dk_set_led (CONNECTION_STATUS_LED z) 1,
      Call_bt_conn_get_info (bt_conn_ref z conn)]"
  "is_log (added s (on_connected z conn 0 s) ! 4)"
  "5 \<le> length (added s (on_connected z conn 0 s))"
  by (simp_all add: on_connected_def added_def Let_def emit_simps update_facts nth_append
      case_prod_beta)

lemma on_connected_globals:
  "my_conn (on_connected z conn 0 s) = bt_conn_ref z conn"
  by (simp add: on_connected_def Let_def emit_simps update_facts case_prod_beta)

lemma on_connected_grows: "trace (on_connected z conn err s) = trace s @ added s (on_connected z conn err s)"
  by (simp add: on_connected_def added_def Let_def emit_simps update_facts case_prod_beta)

lemma phy_loop_trace:
  "trace (phy_loop ns info s) = trace s @ concat (map (\<lambda>(phy_option, name).
      (if phy_option = tx_phy info then [LOG_INF ''TX PHY updated: %s'' [Arg_str name]] else []) @
      (if phy_option = rx_phy info then [LOG_INF ''RX PHY updated: %s'' [Arg_str name]] else []))
      ns)"
  by (induction ns info s rule: phy_loop.induct) (simp_all add: emit_simps Let_def)

lemma phy_loop_globals:
  "my_conn (phy_loop ns info s) = my_conn s"
  "exchange_params_func (phy_loop ns info s) = exchange_params_func s"
  by (induction ns info s rule: phy_loop.induct) (simp_all add: emit_simps emit_func Let_def)

lemma exchange_func_trace:
  "trace (exchange_func z conn err s) = trace s @
     (if err = 0
      then [LOG_INF ''MTU exchange %s'' [Arg_str ''successful''], Call_bt_gatt_get_mtu conn,
            LOG_INF ''Negotiated MTU is %d bytes'' [Arg_int (uint (bt_gatt_get_mtu z conn) - 3)]]
      else [LOG_INF ''MTU exchange %s'' [Arg_str ''failed'']])"
  by (simp add: exchange_func_def Let_def emit_simps)

lemma exchange_func_globals:
  "my_conn (exchange_func z conn err s) = my_conn s"
  "exchange_params_func (exchange_func z conn err s) = exchange_params_func s"
  by (simp_all add: exchange_func_def Let_def emit_simps emit_func)

lemma on_connected_requests:
  "filter is_request (added s (on_connected z conn 0 s)) =
     (if ucast (fst (bt_conn_get_info z (bt_conn_ref z conn))) = (0 :: 8 word)
      then [Call_bt_conn_le_phy_update (bt_conn_ref z conn) (phy_param z),
            Call_bt_conn_le_data_len_update (bt_conn_ref z conn) (data_len_param z),
            Call_bt_gatt_exchange_mtu (bt_conn_ref z conn)]
      else [])"
  by (simp add: on_connected_def added_def Let_def emit_simps update_facts case_prod_beta)

lemma phy_loop_no_request: "filter is_request (added s (phy_loop ns info s)) = []"
proof -
  have "filter is_request (concat (map (\<lambda>(phy_option, name).
      (if phy_option = tx_phy info then [LOG_INF ''TX PHY updated: %s'' [Arg_str name]] else []) @
      (if phy_option = rx_phy info then [LOG_INF ''RX PHY updated: %s'' [Arg_str name]] else []))
      ns)) = []"
    by (induction ns) auto
  then show ?thesis
    by (simp add: added_def phy_loop_trace)
qed

lemma phy_loop_grows: "trace (phy_loop ns info s) = trace s @ added s (phy_loop ns info s)"
  by (simp add: added_def phy_loop_trace)

text \<open>A completion callback extends the trace, and not by a request.\<close>

lemma dispatch_completion:
  assumes "is_completion ev"
  shows "\<exists>xs. trace (dispatch z ev s) = trace s @ xs \<and> filter is_request xs = []"
proof (cases ev)
  case (Le_phy_updated c info)
  then show ?thesis
    using phy_loop_grows [of "phy_names z" info s] phy_loop_no_request [of s "phy_names z" info]
    by (auto simp: on_le_phy_updated_def)
next
  case (Le_data_len_updated c info)
  then show ?thesis
    by (simp add: on_le_data_length_updated_def emit_simps)
next
  case (Mtu_exchanged c err)
  then show ?thesis
    by (cases "exchange_params_func s")
       (auto simp: exchange_func_trace split: callback.splits)
qed (use assms in simp_all)

lemma run_completions:
  assumes "list_all (\<lambda>p. is_completion (snd p)) cbs"
  shows "\<exists>xs. trace (run cbs s) = trace s @ xs \<and> filter is_request xs = []"
  using assms
proof (induction cbs arbitrary: s)
  case Nil
  then show ?case by simp
next
  case (Cons p cbs)
  obtain z ev where p: "p = (z, ev)" by (cases p)
  from Cons.prems p have "is_completion ev" and rest: "list_all (\<lambda>p. is_completion (snd p)) cbs"
    by simp_all
  then obtain xs where xs: "trace (dispatch z ev s) = trace s @ xs" "filter is_request xs = []"
    using dispatch_completion by blast
  from Cons.IH [OF rest, of "dispatch z ev s"] obtain ys
    where ys: "trace (run cbs (dispatch z ev s)) = trace (dispatch z ev s) @ ys"
      "filter is_request ys = []"
    by blast
  show ?case
    using p xs ys by simp
qed

text \<open>The equations that evaluate a handler on the sample board.\<close>

lemmas eval_defs =
  connected_cb_def disconnected_cb_def button_handler_def
  on_connected_def on_disconnected_def on_le_param_updated_def on_le_phy_updated_def
  on_le_data_length_updated_def exchange_func_def button_changed_def
  update_phy_def update_data_length_def update_mtu_def phy_param_def data_len_param_def
  phy_names_def USER_BUTTON_def CON_STATUS_LED_def CONNECTION_STATUS_LED_def
  board_def board_info_fails_def board_requests_refused_def sample_info_def
  boot1_def boot2_def added_def emit_def Let_def

section \<open>The claims\<close>

text \<open>
  C8. After a successful MTU exchange (\<open>err = 0\<close>) \<open>exchange_func\<close> reports, as the
  usable payload, the ATT MTU that \<open>bt_gatt_get_mtu\<close> returns minus 3; the subtraction is
  done on \<open>int\<close>, so it never wraps. With an MTU of 247 the reported size is 244.
\<close>

theorem mtu_accounting:
  assumes "err = 0"
  shows "added s (exchange_func z conn err s) =
           [LOG_INF ''MTU exchange %s'' [Arg_str ''successful''],
            Call_bt_gatt_get_mtu conn,
            LOG_INF ''Negotiated MTU is %d bytes'' [Arg_int (uint (bt_gatt_get_mtu z conn) - 3)]]
       \<and> (bt_gatt_get_mtu z conn = 247 \<longrightarrow>
           last (added s (exchange_func z conn err s)) =
             LOG_INF ''Negotiated MTU is %d bytes'' [Arg_int 244])"
  using assms by (simp add: added_def exchange_func_trace)

theorem mtu_accounting_witness:
  "(0 :: 8 word) = 0 \<and> bt_gatt_get_mtu board (Some 1) = 247 \<and>
   added boot2 (exchange_func board (Some 1) 0 boot2) =
     [LOG_INF ''MTU exchange %s'' [Arg_str ''successful''],
      Call_bt_gatt_get_mtu (Some 1),
      LOG_INF ''Negotiated MTU is %d bytes'' [Arg_int 244]] \<and>
   last (added boot2 (exchange_func board (Some 1) 0 boot2)) =
     LOG_INF ''Negotiated MTU is %d bytes'' [Arg_int 244]"
  using mtu_accounting [where err = 0 and s = boot2 and z = board and conn = "Some 1"]
  by (simp add: board_def)

text \<open>
  C10. A \<open>connected\<close> event with a non-zero error code only writes one error line, in
  both exercises: \<open>my_conn\<close> and \<open>exchange_params\<close> keep their values, and since the
  error line is all that is added to the trace, no reference is taken, the connection LED
  is not set and no negotiation request is made.
\<close>

theorem connected_error_only_logs:
  assumes "err \<noteq> 0"
  shows "my_conn (on_connected z conn err s) = my_conn s
       \<and> exchange_params_func (on_connected z conn err s) = exchange_params_func s
       \<and> added s (on_connected z conn err s) =
           [LOG_ERR ''Connection error %d'' [Arg_int (uint err)]]
       \<and> my_conn (connected_cb z conn err t) = my_conn t
       \<and> added t (connected_cb z conn err t) =
           [LOG_ERR ''Connection failed (err %u)'' [Arg_int (uint err)]]"
  using assms
  by (simp add: on_connected_def connected_cb_def emit_simps emit_func added_def)

theorem connected_error_only_logs_witness:
  "(19 :: 8 word) \<noteq> 0 \<and>
   my_conn (on_connected board (Some 1) 19 boot2) = my_conn boot2 \<and>
   exchange_params_func (on_connected board (Some 1) 19 boot2) = None \<and>
   added boot2 (on_connected board (Some 1) 19 boot2) =
     [LOG_ERR ''Connection error %d'' [Arg_int 19]] \<and>
   my_conn (connected_cb board (Some 1) 19 boot1) = my_conn boot1 \<and>
   added boot1 (connected_cb board (Some 1) 19 boot1) =
     [LOG_ERR ''Connection failed (err %u)'' [Arg_int 19]]"
  using connected_error_only_logs
    [where err = 19 and z = board and conn = "Some 1" and s = boot2 and t = boot1]
  by (simp add: boot2_def)

text \<open>
  C1 (as stated: a \<open>connected\<close> event that arrives while a connection is stored is
  rejected or flagged and does not overwrite the stored reference). On the code this
  fails: with \<open>my_conn\<close> holding connection 1, a \<open>connected\<close> event for connection
  2 stores 2 and writes the same lines as any other connection, in both exercises.
\<close>

theorem second_connected_overwrites_counterexample:
  "my_conn (on_connected board (Some 1) 0 boot2) = Some 1 \<and>
   my_conn (on_connected board (Some 2) 0 (on_connected board (Some 1) 0 boot2)) = Some 2 \<and>
   added (on_connected board (Some 1) 0 boot2)
         (on_connected board (Some 2) 0 (on_connected board (Some 1) 0 boot2)) =
     [LOG_INF ''Connected'' [], Call_bt_conn_ref (Some 2), Call_dk_set_led 1 1,
      Call_bt_conn_get_info (Some 2),
      LOG_INF ''Connection parameters: interval %.2f ms, timeout %d ms, latency %d intervals''
        [Arg_double 30, Arg_int 420, Arg_int 0],
      Call_bt_conn_le_phy_update (Some 2) \<lparr>options = 0, pref_tx_phy = 2, pref_rx_phy = 2\<rparr>,
      Call_bt_conn_le_data_len_update (Some 2) \<lparr>tx_max_len = 251, tx_max_time = 17040\<rparr>,
      LOG_INF ''Data length updated: TX %u, time %u'' [Arg_int 251, Arg_int 17040],
      Call_bt_gatt_exchange_mtu (Some 2), LOG_INF ''MTU exchange pending'' []] \<and>
   my_conn (connected_cb board (Some 1) 0 boot1) = Some 1 \<and>
   my_conn (connected_cb board (Some 2) 0 (connected_cb board (Some 1) 0 boot1)) = Some 2 \<and>
   added (connected_cb board (Some 1) 0 boot1)
         (connected_cb board (Some 2) 0 (connected_cb board (Some 1) 0 boot1)) =
     [LOG_INF ''Connected'' [], Call_bt_conn_ref (Some 2), Call_dk_set_led 1 1]"
  by (simp add: eval_defs)

text \<open>
  C1 (amended). The application holds at most one connection reference, the pointer
  \<open>my_conn\<close>. A \<open>connected\<close> event with \<open>err = 0\<close> is never rejected or flagged: the
  handler stores the result of \<open>bt_conn_ref(conn)\<close> in \<open>my_conn\<close> whatever was stored
  before, and nothing it does depends on the value stored before (it starts with the
  same three effects, and the final state is the same).
\<close>

theorem connected_stores_unconditionally:
  "my_conn (on_connected z conn 0 s) = bt_conn_ref z conn
   \<and> on_connected z conn 0 (s\<lparr>my_conn := c\<rparr>) = on_connected z conn 0 s
   \<and> take 3 (added s (on_connected z conn 0 s)) =
       [LOG_INF ''Connected'' [], Call_bt_conn_ref conn,
        Call_dk_set_led (CONNECTION_STATUS_LED z) 1]
   \<and> my_conn (connected_cb z conn 0 t) = bt_conn_ref z conn
   \<and> connected_cb z conn 0 (t\<lparr>my_conn := c\<rparr>) = connected_cb z conn 0 t
   \<and> added t (connected_cb z conn 0 t) =
       [LOG_INF ''Connected'' [], Call_bt_conn_ref conn, Call_dk_set_led (CON_STATUS_LED z) 1]"
proof -
  have overwritten: "(emit a (emit b (u\<lparr>my_conn := c\<rparr>)))\<lparr>my_conn := r\<rparr> =
      (emit a (emit b u))\<lparr>my_conn := r\<rparr>" for a b r and u :: "'a app_scheme"
    by (simp add: emit_def)
  have "on_connected z conn 0 (s\<lparr>my_conn := c\<rparr>) = on_connected z conn 0 s"
    by (simp add: on_connected_def Let_def case_prod_beta overwritten)
  moreover have "take 3 (added s (on_connected z conn 0 s)) =
       [LOG_INF ''Connected'' [], Call_bt_conn_ref conn,
        Call_dk_set_led (CONNECTION_STATUS_LED z) 1]"
    using on_connected_first_five(1) [of s z conn, THEN arg_cong, of "take 3"]
    by simp
  moreover have "connected_cb z conn 0 (t\<lparr>my_conn := c\<rparr>) = connected_cb z conn 0 t"
    by (simp add: connected_cb_def Let_def overwritten)
  ultimately show ?thesis
    by (simp add: on_connected_globals connected_cb_def added_def emit_simps Let_def)
qed

theorem connected_stores_unconditionally_witness:
  "my_conn (on_connected board (Some 2) 0 (on_connected board (Some 1) 0 boot2)) = Some 2 \<and>
   my_conn (connected_cb board (Some 2) 0 (connected_cb board (Some 1) 0 boot1)) = Some 2"
  using connected_stores_unconditionally
    [where z = board and conn = "Some 2" and s = "on_connected board (Some 1) 0 boot2"
       and t = "connected_cb board (Some 1) 0 boot1" and c = None]
  by (simp add: board_def)

text \<open>
  C5 (as stated: after \<open>on_connected\<close> then \<open>on_disconnected\<close> for the same handle the
  active-connection query returns none). On the code this fails: neither exercise resets
  \<open>my_conn\<close>, which still holds the pointer of connection 1 after the disconnect.
\<close>

theorem my_conn_kept_after_disconnect_counterexample:
  "my_conn (on_disconnected board (Some 1) 19 (on_connected board (Some 1) 0 boot2)) = Some 1 \<and>
   my_conn (disconnected_cb board (Some 1) 19 (connected_cb board (Some 1) 0 boot1)) = Some 1"
  by (simp add: eval_defs)

text \<open>
  C5 (amended). After \<open>on_connected\<close> with \<open>err = 0\<close> and then \<open>on_disconnected\<close>, the
  reference taken at connect has been given back: the only reference-count calls made
  are one \<open>bt_conn_ref(conn)\<close> and one \<open>bt_conn_unref\<close> of the pointer it returned,
  and the disconnect handler switches the connection LED off. \<open>my_conn\<close> is not reset:
  it keeps the released pointer. A later \<open>on_connected\<close> with \<open>err = 0\<close> stores its own
  reference. The same holds for \<open>connected_cb\<close> and \<open>disconnected_cb\<close> of exercise 1.
\<close>

theorem connect_disconnect_releases_reference:
  "filter is_refcount
     (added s (on_disconnected z2 conn reason (on_connected z conn 0 s))) =
       [Call_bt_conn_ref conn, Call_bt_conn_unref (bt_conn_ref z conn)]
   \<and> added (on_connected z conn 0 s)
        (on_disconnected z2 conn reason (on_connected z conn 0 s)) =
       [LOG_INF ''Disconnected. Reason %d'' [Arg_int (uint reason)],
        Call_dk_set_led (CONNECTION_STATUS_LED z2) 0,
        Call_bt_conn_unref (bt_conn_ref z conn)]
   \<and> my_conn (on_disconnected z2 conn reason (on_connected z conn 0 s)) = bt_conn_ref z conn
   \<and> my_conn (on_connected z3 conn3 0
        (on_disconnected z2 conn reason (on_connected z conn 0 s))) = bt_conn_ref z3 conn3
   \<and> added t (disconnected_cb z2 conn reason (connected_cb z conn 0 t)) =
       [LOG_INF ''Connected'' [], Call_bt_conn_ref conn, Call_dk_set_led (CON_STATUS_LED z) 1,
        LOG_INF ''Disconnected (reason %u)'' [Arg_int (uint reason)],
        Call_bt_conn_unref (bt_conn_ref z conn),
        Call_dk_set_led (CON_STATUS_LED z2) 0]
   \<and> my_conn (disconnected_cb z2 conn reason (connected_cb z conn 0 t)) = bt_conn_ref z conn
   \<and> my_conn (connected_cb z3 conn3 0
        (disconnected_cb z2 conn reason (connected_cb z conn 0 t))) = bt_conn_ref z3 conn3"
proof -
  let ?s1 = "on_connected z conn 0 s"
  let ?s2 = "on_disconnected z2 conn reason ?s1"
  define xs where "xs = added s ?s1"
  have grow: "trace ?s1 = trace s @ xs"
    unfolding xs_def by (rule on_connected_grows)
  have disc: "trace ?s2 = trace ?s1 @
       [LOG_INF ''Disconnected. Reason %d'' [Arg_int (uint reason)],
        Call_dk_set_led (CONNECTION_STATUS_LED z2) 0,
        Call_bt_conn_unref (bt_conn_ref z conn)]"
    by (simp add: on_disconnected_def Let_def emit_simps on_connected_globals)
  have refs: "filter is_refcount xs = [Call_bt_conn_ref conn]"
    unfolding xs_def
    by (simp add: on_connected_def added_def Let_def emit_simps update_facts case_prod_beta)
  have "added s ?s2 = xs @
       [LOG_INF ''Disconnected. Reason %d'' [Arg_int (uint reason)],
        Call_dk_set_led (CONNECTION_STATUS_LED z2) 0,
        Call_bt_conn_unref (bt_conn_ref z conn)]"
    by (simp add: disc grow added_def)
  then have "filter is_refcount (added s ?s2) =
       [Call_bt_conn_ref conn, Call_bt_conn_unref (bt_conn_ref z conn)]"
    by (simp add: refs)
  moreover have "added ?s1 ?s2 =
       [LOG_INF ''Disconnected. Reason %d'' [Arg_int (uint reason)],
        Call_dk_set_led (CONNECTION_STATUS_LED z2) 0,
        Call_bt_conn_unref (bt_conn_ref z conn)]"
    by (simp add: disc added_def)
  moreover have "my_conn ?s2 = bt_conn_ref z conn"
    by (simp add: on_disconnected_def Let_def emit_simps on_connected_globals)
  ultimately show ?thesis
    by (simp add: on_connected_globals connected_cb_def disconnected_cb_def added_def
        emit_simps Let_def)
qed

theorem connect_disconnect_releases_reference_witness:
  "filter is_refcount
     (added boot2 (on_disconnected board (Some 1) 19 (on_connected board (Some 1) 0 boot2))) =
       [Call_bt_conn_ref (Some 1), Call_bt_conn_unref (Some 1)] \<and>
   my_conn (on_connected board (Some 2) 0
     (on_disconnected board (Some 1) 19 (on_connected board (Some 1) 0 boot2))) = Some 2"
  using connect_disconnect_releases_reference
    [where z = board and ?z2.0 = board and ?z3.0 = board and conn = "Some 1"
       and ?conn3.0 = "Some 2" and reason = 19 and s = boot2 and t = boot1]
  by (simp add: board_def)

text \<open>
  C6 (as stated: a \<open>disconnected\<close> event whose handle is not the tracked one fails with
  an unknown-handle error and does not release the tracked reference). On the code this
  fails: with connection 1 tracked, a \<open>disconnected\<close> event for connection 2 switches
  the LED off and calls \<open>bt_conn_unref\<close> on connection 1, in both exercises.
\<close>

theorem disconnect_unknown_handle_counterexample:
  "my_conn (on_connected board (Some 1) 0 boot2) = Some 1 \<and>
   added (on_connected board (Some 1) 0 boot2)
     (on_disconnected board (Some 2) 19 (on_connected board (Some 1) 0 boot2)) =
     [LOG_INF ''Disconnected. Reason %d'' [Arg_int 19], Call_dk_set_led 1 0,
      Call_bt_conn_unref (Some 1)] \<and>
   my_conn (connected_cb board (Some 1) 0 boot1) = Some 1 \<and>
   added (connected_cb board (Some 1) 0 boot1)
     (disconnected_cb board (Some 2) 19 (connected_cb board (Some 1) 0 boot1)) =
     [LOG_INF ''Disconnected (reason %u)'' [Arg_int 19], Call_bt_conn_unref (Some 1),
      Call_dk_set_led 1 0]"
  by (simp add: eval_defs)

text \<open>
  C6 (amended). The disconnected handler never looks at its handle argument and has no
  error result: for every handle it writes the reason to the log, switches the connection
  LED off and calls \<open>bt_conn_unref\<close> on the pointer in \<open>my_conn\<close>; \<open>my_conn\<close> and
  \<open>exchange_params\<close> keep their values. The same holds for \<open>disconnected_cb\<close> of
  exercise 1, which releases the reference before it switches the LED off.
\<close>

theorem disconnected_ignores_handle:
  "on_disconnected z conn reason s = on_disconnected z conn2 reason s
   \<and> added s (on_disconnected z conn reason s) =
       [LOG_INF ''Disconnected. Reason %d'' [Arg_int (uint reason)],
        Call_dk_set_led (CONNECTION_STATUS_LED z) 0,
        Call_bt_conn_unref (my_conn s)]
   \<and> my_conn (on_disconnected z conn reason s) = my_conn s
   \<and> exchange_params_func (on_disconnected z conn reason s) = exchange_params_func s
   \<and> disconnected_cb z conn reason t = disconnected_cb z conn2 reason t
   \<and> added t (disconnected_cb z conn reason t) =
       [LOG_INF ''Disconnected (reason %u)'' [Arg_int (uint reason)],
        Call_bt_conn_unref (my_conn t),
        Call_dk_set_led (CON_STATUS_LED z) 0]
   \<and> my_conn (disconnected_cb z conn reason t) = my_conn t"
  by (simp add: on_disconnected_def disconnected_cb_def added_def emit_simps emit_func Let_def)

theorem disconnected_ignores_handle_witness:
  "on_disconnected board (Some 2) 19 (on_connected board (Some 1) 0 boot2) =
     on_disconnected board (Some 1) 19 (on_connected board (Some 1) 0 boot2) \<and>
   added (on_connected board (Some 1) 0 boot2)
     (on_disconnected board (Some 2) 19 (on_connected board (Some 1) 0 boot2)) =
     [LOG_INF ''Disconnected. Reason %d'' [Arg_int 19], Call_dk_set_led 1 0,
      Call_bt_conn_unref (Some 1)]"
proof -
  have led: "CONNECTION_STATUS_LED board = 1"
    by (simp add: CONNECTION_STATUS_LED_def board_def)
  have ref: "bt_conn_ref board c = c" for c
    by (simp add: board_def)
  show ?thesis
    using disconnected_ignores_handle
      [where z = board and conn = "Some 2" and ?conn2.0 = "Some 1" and reason = 19
         and s = "on_connected board (Some 1) 0 boot2" and t = boot1]
    by (auto simp: on_connected_globals led ref)
qed

text \<open>
  C7 (as stated: a button change consults the active connection and, when there is none,
  returns a no-connection error without attempting a send). On the code this fails: at
  boot, with \<open>my_conn = NULL\<close>, a press of the user button calls
  \<open>bt_lbs_send_button_state(true)\<close>, in both exercises.
\<close>

theorem button_send_without_connection_counterexample:
  "my_conn boot2 = None \<and>
   added boot2 (button_changed board 1 1 boot2) =
     [LOG_INF ''Button changed'' [], Call_bt_lbs_send_button_state True] \<and>
   my_conn boot1 = None \<and>
   added boot1 (button_handler board 1 1 boot1) =
     [LOG_INF ''Button state changed to 0x%08x'' [Arg_int 1],
      Call_bt_lbs_send_button_state True]"
  by (simp add: eval_defs)

text \<open>
  C7 (amended). For every button event whose \<open>has_changed\<close> has the \<open>USER_BUTTON\<close> bit
  set, the handler calls \<open>bt_lbs_send_button_state(button_state != 0)\<close> whether or not
  a connection is stored: it does not read \<open>my_conn\<close> (running it on a state with another
  \<open>my_conn\<close> gives the same result, up to that field). A non-zero return value is written
  to the log as an error; nothing else is done with it. When the bit is not set the
  handler adds nothing to the trace.
\<close>

theorem button_send_not_gated:
  "added s (button_changed z button_state has_changed s) =
     (if has_changed AND USER_BUTTON z \<noteq> 0
      then [LOG_INF ''Button changed'' [],
            Call_bt_lbs_send_button_state (button_state \<noteq> 0)] @
           (if bt_lbs_send_button_state z (button_state \<noteq> 0) \<noteq> 0
            then [LOG_ERR ''Couldn't send notification. err: %d''
                    [Arg_int (sint (bt_lbs_send_button_state z (button_state \<noteq> 0)))]]
            else [])
      else [])
   \<and> button_changed z button_state has_changed (s\<lparr>my_conn := c\<rparr>) =
       (button_changed z button_state has_changed s)\<lparr>my_conn := c\<rparr>
   \<and> added t (button_handler z button_state has_changed t) =
     (if has_changed AND USER_BUTTON z \<noteq> 0
      then [LOG_INF ''Button state changed to 0x%08x'' [Arg_int (uint button_state)],
            Call_bt_lbs_send_button_state (button_state \<noteq> 0)] @
           (if bt_lbs_send_button_state z (button_state \<noteq> 0) \<noteq> 0
            then [LOG_ERR ''Failed to send button state, error code: %d''
                    [Arg_int (sint (bt_lbs_send_button_state z (button_state \<noteq> 0)))]]
            else [])
      else [])
   \<and> button_handler z button_state has_changed (t\<lparr>my_conn := c\<rparr>) =
       (button_handler z button_state has_changed t)\<lparr>my_conn := c\<rparr>"
  by (simp add: button_changed_def button_handler_def added_def emit_def Let_def)

theorem button_send_not_gated_witness:
  "added boot2 (button_changed board 0 1 boot2) =
     [LOG_INF ''Button changed'' [], Call_bt_lbs_send_button_state False] \<and>
   added boot1 (button_handler board 0 1 boot1) =
     [LOG_INF ''Button state changed to 0x%08x'' [Arg_int 0],
      Call_bt_lbs_send_button_state False]"
  using button_send_not_gated
    [where z = board and button_state = 0 and has_changed = 1 and s = boot2 and t = boot1
       and c = None]
  by (simp add: USER_BUTTON_def board_def)

text \<open>
  C2 (as stated: a completion callback delivered after \<open>disconnected\<close> first verifies
  that the connection is still the active one and, since it is not, is a silent
  no-op). On the code this fails: after connection 1 was connected and disconnected, each
  of the three completion handlers does what it always does. They write their log lines,
  and \<open>exchange_func\<close> calls \<open>bt_gatt_get_mtu\<close> on the handle of the closed connection.
\<close>

theorem stale_completion_callbacks_counterexample:
  "added (run [(board, Connected (Some 1) 0), (board, Disconnected (Some 1) 19)] boot2)
     (dispatch board (Le_phy_updated (Some 1) \<lparr>tx_phy = 2, rx_phy = 2\<rparr>)
       (run [(board, Connected (Some 1) 0), (board, Disconnected (Some 1) 19)] boot2)) =
     [LOG_INF ''TX PHY updated: %s'' [Arg_str ''2M PHY''],
      LOG_INF ''RX PHY updated: %s'' [Arg_str ''2M PHY'']] \<and>
   added (run [(board, Connected (Some 1) 0), (board, Disconnected (Some 1) 19)] boot2)
     (dispatch board
       (Le_data_len_updated (Some 1)
         \<lparr>info_tx_max_len = 251, info_tx_max_time = 2120,
          info_rx_max_len = 251, info_rx_max_time = 2120\<rparr>)
       (run [(board, Connected (Some 1) 0), (board, Disconnected (Some 1) 19)] boot2)) =
     [LOG_INF ''Data length updated: TX: %u bytes, time %u; RX: %u bytes, time %u''
        [Arg_int 251, Arg_int 2120, Arg_int 251, Arg_int 2120]] \<and>
   added (run [(board, Connected (Some 1) 0), (board, Disconnected (Some 1) 19)] boot2)
     (dispatch board (Mtu_exchanged (Some 1) 0)
       (run [(board, Connected (Some 1) 0), (board, Disconnected (Some 1) 19)] boot2)) =
     [LOG_INF ''MTU exchange %s'' [Arg_str ''successful''],
      Call_bt_gatt_get_mtu (Some 1),
      LOG_INF ''Negotiated MTU is %d bytes'' [Arg_int 244]]"
  by (simp add: eval_defs)

text \<open>
  C2 (amended). The completion handlers \<open>on_le_phy_updated\<close>,
  \<open>on_le_data_length_updated\<close> and \<open>exchange_func\<close> make no check of the connection.
  Whenever they are called, before or after \<open>disconnected\<close>, they leave \<open>my_conn\<close> and
  \<open>exchange_params\<close> as they were and only append to the trace; what they append is
  determined by their arguments and the stack alone, not by the state of the application:
  log lines, and for \<open>exchange_func\<close> with \<open>err = 0\<close> a call of \<open>bt_gatt_get_mtu\<close> on
  the handle it was given.
\<close>

theorem completion_handlers_do_not_check:
  "my_conn (on_le_phy_updated z conn pinfo s) = my_conn s
   \<and> exchange_params_func (on_le_phy_updated z conn pinfo s) = exchange_params_func s
   \<and> trace (on_le_phy_updated z conn pinfo s) =
       trace s @ concat (map (\<lambda>(phy_option, name).
         (if phy_option = tx_phy pinfo
          then [LOG_INF ''TX PHY updated: %s'' [Arg_str name]] else []) @
         (if phy_option = rx_phy pinfo
          then [LOG_INF ''RX PHY updated: %s'' [Arg_str name]] else [])) (phy_names z))
   \<and> my_conn (on_le_data_length_updated z conn dinfo s) = my_conn s
   \<and> exchange_params_func (on_le_data_length_updated z conn dinfo s) = exchange_params_func s
   \<and> trace (on_le_data_length_updated z conn dinfo s) =
       trace s @
       [LOG_INF ''Data length updated: TX: %u bytes, time %u; RX: %u bytes, time %u''
         [Arg_int (uint (info_tx_max_len dinfo)), Arg_int (uint (info_tx_max_time dinfo)),
          Arg_int (uint (info_rx_max_len dinfo)), Arg_int (uint (info_rx_max_time dinfo))]]
   \<and> my_conn (exchange_func z conn err s) = my_conn s
   \<and> exchange_params_func (exchange_func z conn err s) = exchange_params_func s
   \<and> trace (exchange_func z conn err s) =
       trace s @
       (if err = 0
        then [LOG_INF ''MTU exchange %s'' [Arg_str ''successful''], Call_bt_gatt_get_mtu conn,
              LOG_INF ''Negotiated MTU is %d bytes''
                [Arg_int (uint (bt_gatt_get_mtu z conn) - 3)]]
        else [LOG_INF ''MTU exchange %s'' [Arg_str ''failed'']])"
  by (simp add: on_le_phy_updated_def phy_loop_globals phy_loop_trace
      on_le_data_length_updated_def emit_simps emit_func
      exchange_func_globals exchange_func_trace)

theorem completion_handlers_do_not_check_witness:
  "my_conn (exchange_func board (Some 1) 0
     (on_disconnected board (Some 1) 19 (on_connected board (Some 1) 0 boot2))) = Some 1 \<and>
   added (on_disconnected board (Some 1) 19 (on_connected board (Some 1) 0 boot2))
     (on_le_phy_updated board (Some 1) \<lparr>tx_phy = 1, rx_phy = 2\<rparr>
       (on_disconnected board (Some 1) 19 (on_connected board (Some 1) 0 boot2))) =
     [LOG_INF ''TX PHY updated: %s'' [Arg_str ''1M PHY''],
      LOG_INF ''RX PHY updated: %s'' [Arg_str ''2M PHY'']]"
proof -
  have ref: "bt_conn_ref board c = c" for c
    by (simp add: board_def)
  have names: "phy_names board = [(0, ''No preferred PHY''), (1, ''1M PHY''), (2, ''2M PHY''),
      (3, ''Coded PHY, S=8''), (4, ''Coded PHY, S=2'')]"
    by (simp add: phy_names_def board_def)
  show ?thesis
    using completion_handlers_do_not_check
      [where z = board and conn = "Some 1" and err = 0
         and pinfo = "\<lparr>tx_phy = 1, rx_phy = 2\<rparr>"
         and s = "on_disconnected board (Some 1) 19 (on_connected board (Some 1) 0 boot2)"]
    by (simp add: added_def names ref on_disconnected_def Let_def emit_simps on_connected_globals)
qed

text \<open>
  C3 (as stated: the data length request is issued from the PHY completion handler and
  the MTU request from the data length completion handler, not all from the connected
  handler). On the code this fails: one call of \<open>on_connected\<close> issues the three
  requests, and the PHY and data length completion handlers issue none.
\<close>

theorem requests_not_chained_counterexample:
  "filter is_request (added boot2 (on_connected board (Some 1) 0 boot2)) =
     [Call_bt_conn_le_phy_update (Some 1) \<lparr>options = 0, pref_tx_phy = 2, pref_rx_phy = 2\<rparr>,
      Call_bt_conn_le_data_len_update (Some 1) \<lparr>tx_max_len = 251, tx_max_time = 17040\<rparr>,
      Call_bt_gatt_exchange_mtu (Some 1)] \<and>
   filter is_request
     (added (on_connected board (Some 1) 0 boot2)
       (dispatch board (Le_phy_updated (Some 1) \<lparr>tx_phy = 2, rx_phy = 2\<rparr>)
         (on_connected board (Some 1) 0 boot2))) = [] \<and>
   filter is_request
     (added (on_connected board (Some 1) 0 boot2)
       (dispatch board
         (Le_data_len_updated (Some 1)
           \<lparr>info_tx_max_len = 251, info_tx_max_time = 2120,
            info_rx_max_len = 251, info_rx_max_time = 2120\<rparr>)
         (on_connected board (Some 1) 0 boot2))) = []"
  by (simp add: eval_defs)

text \<open>
  C3 (amended). The negotiation requests are not chained through the completion
  callbacks: \<open>on_le_phy_updated\<close>, \<open>on_le_data_length_updated\<close> and \<open>exchange_func\<close>
  issue no request, and \<open>on_connected\<close> itself, in the one call with \<open>err = 0\<close> in which
  \<open>bt_conn_get_info\<close> succeeds, issues the data length request and the MTU request
  besides the PHY request.
\<close>

theorem requests_issued_by_on_connected:
  "filter is_request (added s (on_le_phy_updated z conn pinfo s)) = []
   \<and> filter is_request (added s (on_le_data_length_updated z conn dinfo s)) = []
   \<and> filter is_request (added s (exchange_func z conn err s)) = []
   \<and> (ucast (fst (bt_conn_get_info z (bt_conn_ref z conn))) = (0 :: 8 word) \<longrightarrow>
        Call_bt_conn_le_phy_update (bt_conn_ref z conn) (phy_param z)
          \<in> set (added s (on_connected z conn 0 s)) \<and>
        Call_bt_conn_le_data_len_update (bt_conn_ref z conn) (data_len_param z)
          \<in> set (added s (on_connected z conn 0 s)) \<and>
        Call_bt_gatt_exchange_mtu (bt_conn_ref z conn)
          \<in> set (added s (on_connected z conn 0 s)))"
proof -
  have "x \<in> set (added s (on_connected z conn 0 s))"
    if "ucast (fst (bt_conn_get_info z (bt_conn_ref z conn))) = (0 :: 8 word)"
      and "x \<in> {Call_bt_conn_le_phy_update (bt_conn_ref z conn) (phy_param z),
                 Call_bt_conn_le_data_len_update (bt_conn_ref z conn) (data_len_param z),
                 Call_bt_gatt_exchange_mtu (bt_conn_ref z conn)}" for x
  proof -
    from that have "x \<in> set (drop 5 (added s (on_connected z conn 0 s)))"
      by (auto simp: on_connected_info_ok)
    then show ?thesis
      by (rule in_set_dropD)
  qed
  moreover have "filter is_request (added s (on_le_phy_updated z conn pinfo s)) = []"
    by (simp add: on_le_phy_updated_def phy_loop_no_request)
  moreover have "filter is_request (added s (on_le_data_length_updated z conn dinfo s)) = []"
    by (simp add: on_le_data_length_updated_def added_def emit_simps)
  moreover have "filter is_request (added s (exchange_func z conn err s)) = []"
    by (simp add: exchange_func_trace added_def)
  ultimately show ?thesis
    by simp
qed

theorem requests_issued_by_on_connected_witness:
  "ucast (fst (bt_conn_get_info board (bt_conn_ref board (Some 1)))) = (0 :: 8 word) \<and>
   Call_bt_conn_le_data_len_update (Some 1) \<lparr>tx_max_len = 251, tx_max_time = 17040\<rparr>
     \<in> set (added boot2 (on_connected board (Some 1) 0 boot2)) \<and>
   Call_bt_gatt_exchange_mtu (Some 1) \<in> set (added boot2 (on_connected board (Some 1) 0 boot2))"
proof -
  have ref: "bt_conn_ref board c = c" for c
    by (simp add: board_def)
  have ok: "ucast (fst (bt_conn_get_info board c)) = (0 :: 8 word)" for c
    by (simp add: board_def)
  have dl: "data_len_param board = \<lparr>tx_max_len = 251, tx_max_time = 17040\<rparr>"
    by (simp add: data_len_param_def board_def)
  show ?thesis
    using requests_issued_by_on_connected [where z = board and conn = "Some 1" and s = boot2]
    by (simp add: ref ok dl)
qed

text \<open>
  C4 (as stated: for every fresh connection the requests issued are PHY, data length and
  MTU, in that order). On the code this fails when \<open>bt_conn_get_info\<close> reports an
  error: \<open>on_connected\<close> takes the reference, lights the LED, logs the error and
  returns before any negotiation request.
\<close>

theorem no_request_when_info_fails_counterexample:
  "added boot2 (on_connected board_info_fails (Some 1) 0 boot2) =
     [LOG_INF ''Connected'' [], Call_bt_conn_ref (Some 1), Call_dk_set_led 1 1,
      Call_bt_conn_get_info (Some 1),
      LOG_ERR ''Cannot get connection info, err %d'' [Arg_int 234]] \<and>
   filter is_request (added boot2 (on_connected board_info_fails (Some 1) 0 boot2)) = []"
  by (simp add: eval_defs)

text \<open>
  C4 (amended). For every \<open>connected\<close> event with \<open>err = 0\<close> for which
  \<open>bt_conn_get_info\<close> succeeds (the low eight bits of its result are zero), the
  negotiation requests issued are the PHY update, then the data length update, then the
  MTU exchange, all on the stored handle, and completion callbacks that arrive afterwards,
  in any number and order, add no request. When \<open>bt_conn_get_info\<close> fails, no
  negotiation request is issued.
\<close>

theorem negotiation_order:
  assumes "list_all (\<lambda>p. is_completion (snd p)) cbs"
  shows "filter is_request (added s (run cbs (on_connected z conn 0 s))) =
     (if ucast (fst (bt_conn_get_info z (bt_conn_ref z conn))) = (0 :: 8 word)
      then [Call_bt_conn_le_phy_update (bt_conn_ref z conn) (phy_param z),
            Call_bt_conn_le_data_len_update (bt_conn_ref z conn) (data_len_param z),
            Call_bt_gatt_exchange_mtu (bt_conn_ref z conn)]
      else [])"
proof -
  define ys where "ys = added s (on_connected z conn 0 s)"
  have grow: "trace (on_connected z conn 0 s) = trace s @ ys"
    unfolding ys_def by (rule on_connected_grows)
  obtain xs where xs: "trace (run cbs (on_connected z conn 0 s)) =
      trace (on_connected z conn 0 s) @ xs" "filter is_request xs = []"
    using run_completions [OF assms] by blast
  have "added s (run cbs (on_connected z conn 0 s)) = ys @ xs"
    by (simp add: added_def xs(1) grow)
  then have "filter is_request (added s (run cbs (on_connected z conn 0 s))) =
      filter is_request ys"
    by (simp add: xs(2))
  then show ?thesis
    unfolding ys_def by (simp only: on_connected_requests)
qed

theorem negotiation_order_witness:
  "list_all (\<lambda>p. is_completion (snd p))
     [(board, Mtu_exchanged (Some 1) 0),
      (board, Le_phy_updated (Some 1) \<lparr>tx_phy = 2, rx_phy = 2\<rparr>)] \<and>
   filter is_request
     (added boot2
       (run [(board, Mtu_exchanged (Some 1) 0),
             (board, Le_phy_updated (Some 1) \<lparr>tx_phy = 2, rx_phy = 2\<rparr>)]
         (on_connected board (Some 1) 0 boot2))) =
     [Call_bt_conn_le_phy_update (Some 1) \<lparr>options = 0, pref_tx_phy = 2, pref_rx_phy = 2\<rparr>,
      Call_bt_conn_le_data_len_update (Some 1) \<lparr>tx_max_len = 251, tx_max_time = 17040\<rparr>,
      Call_bt_gatt_exchange_mtu (Some 1)]"
proof -
  have cbs: "list_all (\<lambda>p. is_completion (snd p))
     [(board, Mtu_exchanged (Some 1) 0),
      (board, Le_phy_updated (Some 1) \<lparr>tx_phy = 2, rx_phy = 2\<rparr>)]"
    by simp
  have ref: "bt_conn_ref board c = c" for c
    by (simp add: board_def)
  have ok: "ucast (fst (bt_conn_get_info board c)) = (0 :: 8 word)" for c
    by (simp add: board_def)
  have params: "phy_param board = \<lparr>options = 0, pref_tx_phy = 2, pref_rx_phy = 2\<rparr>"
    "data_len_param board = \<lparr>tx_max_len = 251, tx_max_time = 17040\<rparr>"
    by (simp_all add: phy_param_def data_len_param_def board_def)
  show ?thesis
    using negotiation_order [OF cbs, where z = board and conn = "Some 1" and s = boot2] cbs
    by (simp only: ref ok params if_True simp_thms)
qed

text \<open>
  C9. A refused negotiation request does not stop the sequence. In a call of
  \<open>on_connected\<close> that reaches the negotiation (\<open>err = 0\<close>, \<open>bt_conn_get_info\<close>
  succeeded): when \<open>bt_conn_le_phy_update\<close> returns an error, the error is logged; when
  \<open>bt_conn_le_data_len_update\<close> returns an error, the error is logged; whatever the two
  return, the three requests are issued in their order, \<open>my_conn\<close> keeps the reference
  taken at connect, and that reference is not released.
\<close>

theorem negotiation_failure_non_fatal:
  assumes "ucast (fst (bt_conn_get_info z (bt_conn_ref z conn))) = (0 :: 8 word)"
  shows "(bt_conn_le_phy_update z (bt_conn_ref z conn) (phy_param z) \<noteq> 0 \<longrightarrow>
            LOG_ERR ''PHY update failed (err %d)''
              [Arg_int (sint (bt_conn_le_phy_update z (bt_conn_ref z conn) (phy_param z)))]
              \<in> set (added s (on_connected z conn 0 s)))
       \<and> (bt_conn_le_data_len_update z (bt_conn_ref z conn) (data_len_param z) \<noteq> 0 \<longrightarrow>
            LOG_ERR ''Data length update failed (err %d)''
              [Arg_int (sint (bt_conn_le_data_len_update z (bt_conn_ref z conn)
                 (data_len_param z)))]
              \<in> set (added s (on_connected z conn 0 s)))
       \<and> filter is_request (added s (on_connected z conn 0 s)) =
            [Call_bt_conn_le_phy_update (bt_conn_ref z conn) (phy_param z),
             Call_bt_conn_le_data_len_update (bt_conn_ref z conn) (data_len_param z),
             Call_bt_gatt_exchange_mtu (bt_conn_ref z conn)]
       \<and> my_conn (on_connected z conn 0 s) = bt_conn_ref z conn
       \<and> filter is_refcount (added s (on_connected z conn 0 s)) = [Call_bt_conn_ref conn]"
proof -
  have tail: "x \<in> set (drop 5 (added s (on_connected z conn 0 s))) \<Longrightarrow>
      x \<in> set (added s (on_connected z conn 0 s))" for x
    by (rule in_set_dropD)
  have "bt_conn_le_phy_update z (bt_conn_ref z conn) (phy_param z) \<noteq> 0 \<Longrightarrow>
      LOG_ERR ''PHY update failed (err %d)''
        [Arg_int (sint (bt_conn_le_phy_update z (bt_conn_ref z conn) (phy_param z)))]
        \<in> set (added s (on_connected z conn 0 s))"
    by (rule tail) (simp add: on_connected_info_ok [OF assms])
  moreover have "bt_conn_le_data_len_update z (bt_conn_ref z conn) (data_len_param z) \<noteq> 0 \<Longrightarrow>
      LOG_ERR ''Data length update failed (err %d)''
        [Arg_int (sint (bt_conn_le_data_len_update z (bt_conn_ref z conn) (data_len_param z)))]
        \<in> set (added s (on_connected z conn 0 s))"
    by (rule tail) (simp add: on_connected_info_ok [OF assms])
  moreover have "filter is_refcount (added s (on_connected z conn 0 s)) = [Call_bt_conn_ref conn]"
    by (simp add: on_connected_def added_def Let_def emit_simps update_facts case_prod_beta)
  ultimately show ?thesis
    using assms by (simp add: on_connected_requests on_connected_globals)
qed

theorem negotiation_failure_non_fatal_witness:
  "ucast (fst (bt_conn_get_info board_requests_refused
      (bt_conn_ref board_requests_refused (Some 1)))) = (0 :: 8 word) \<and>
   bt_conn_le_phy_update board_requests_refused (Some 1) (phy_param board_requests_refused)
     \<noteq> 0 \<and>
   bt_conn_le_data_len_update board_requests_refused (Some 1)
     (data_len_param board_requests_refused) \<noteq> 0 \<and>
   LOG_ERR ''PHY update failed (err %d)'' [Arg_int (- 22)]
     \<in> set (added boot2 (on_connected board_requests_refused (Some 1) 0 boot2)) \<and>
   LOG_ERR ''Data length update failed (err %d)'' [Arg_int (- 22)]
     \<in> set (added boot2 (on_connected board_requests_refused (Some 1) 0 boot2)) \<and>
   filter is_request (added boot2 (on_connected board_requests_refused (Some 1) 0 boot2)) =
     [Call_bt_conn_le_phy_update (Some 1) \<lparr>options = 0, pref_tx_phy = 2, pref_rx_phy = 2\<rparr>,
      Call_bt_conn_le_data_len_update (Some 1) \<lparr>tx_max_len = 251, tx_max_time = 17040\<rparr>,
      Call_bt_gatt_exchange_mtu (Some 1)] \<and>
   my_conn (on_connected board_requests_refused (Some 1) 0 boot2) = Some 1"
proof -
  have ref: "bt_conn_ref board_requests_refused c = c" for c
    by (simp add: board_requests_refused_def board_def)
  have ok: "ucast (fst (bt_conn_get_info board_requests_refused c)) = (0 :: 8 word)" for c
    by (simp add: board_requests_refused_def board_def)
  have refused: "bt_conn_le_phy_update board_requests_refused c p = - 22"
    "bt_conn_le_data_len_update board_requests_refused c q = - 22" for c p q
    by (simp_all add: board_requests_refused_def board_def)
  have params:
    "phy_param board_requests_refused = \<lparr>options = 0, pref_tx_phy = 2, pref_rx_phy = 2\<rparr>"
    "data_len_param board_requests_refused = \<lparr>tx_max_len = 251, tx_max_time = 17040\<rparr>"
    by (simp_all add: phy_param_def data_len_param_def board_requests_refused_def board_def)
  have minus: "sint (- 22 :: 32 word) = - 22" "(- 22 :: 32 word) \<noteq> 0"
    by simp_all
  show ?thesis
    using negotiation_failure_non_fatal
      [where z = board_requests_refused and conn = "Some 1" and s = boot2]
    by (simp add: ref ok refused params minus)
qed

end
